theory Spec2Isabelle
  imports Complex_Main "HOL-Library.Char_ord" "HOL-Library.List_Lexorder" "HOL-Library.Multiset"
begin

section \<open>Data model\<close>

text \<open>
  A row of the \<^verbatim>\<open>jobs\<close> table (\<^verbatim>\<open>storage.py\<close>, \<^verbatim>\<open>_init_db\<close>). The \<^verbatim>\<open>TEXT\<close> columns
  are strings, the nullable ones options (\<open>None\<close> is SQL \<^verbatim>\<open>NULL\<close>), the \<^verbatim>\<open>INTEGER\<close>
  columns unbounded integers. The column \<^verbatim>\<open>id\<close> is the field \<open>job_id\<close>, since \<open>id\<close> is
  the identity function of HOL. Timestamps are the ISO strings the code stores; SQLite
  compares them as strings, which is the lexicographic order on \<open>string\<close> here.
\<close>

type_synonym timestamp = string

text \<open>\<^verbatim>\<open>JobManager.VALID_STATES\<close>.\<close>

datatype job_state = Pending | Processing | Completed | Failed | Dead

record job =
  job_id :: string
  command :: string
  state :: job_state
  attempts :: int
  max_retries :: int
  created_at :: timestamp
  updated_at :: timestamp
  scheduled_at :: "timestamp option"
  error_message :: "string option"
  lock_id :: "string option"

text \<open>
  The table: its rows in insertion order. \<^verbatim>\<open>id TEXT PRIMARY KEY\<close> is the predicate
  \<open>unique_ids\<close>.
\<close>

type_synonym store = "job list"

definition unique_ids :: "store \<Rightarrow> bool" where
  "unique_ids s = distinct (map job_id s)"

text \<open>
  The exceptions of the code. \<^verbatim>\<open>JobManager\<close> raises \<^verbatim>\<open>ValueError\<close> with a message;
  \<open>IntegrityError\<close> is what SQLite raises on an \<^verbatim>\<open>INSERT\<close> that repeats a primary key,
  \<open>ZeroDivisionError\<close> what Python raises on a zero base with a negative exponent,
  \<open>OverflowError\<close> what it raises when a time lies outside the range of \<^verbatim>\<open>timedelta\<close> or
  \<^verbatim>\<open>datetime\<close>.
\<close>

datatype error =
    ValueError string
  | IntegrityError
  | ZeroDivisionError
  | OverflowError

text \<open>
  The four messages of \<^verbatim>\<open>JobManager\<close>, under the names section 7 of the specification
  gives the failures: \<^verbatim>\<open>"Job must have 'id' and 'command' fields"\<close>,
  \<^verbatim>\<open>f"Job with ID '{i}' already exists"\<close>, \<^verbatim>\<open>f"Job not found: {i}"\<close> and
  \<^verbatim>\<open>f"Job is not in DLQ: {i}"\<close>.
\<close>

definition InvalidInput :: error where
  "InvalidInput = ValueError ''Job must have 'id' and 'command' fields''"

definition Duplicate :: "string \<Rightarrow> error" where
  "Duplicate i = ValueError (''Job with ID '' @ [CHR 0x27] @ i @ [CHR 0x27] @ '' already exists'')"

definition NotFound :: "string \<Rightarrow> error" where
  "NotFound i = ValueError (''Job not found: '' @ i)"

definition InvalidState :: "string \<Rightarrow> error" where
  "InvalidState i = ValueError (''Job is not in DLQ: '' @ i)"

section \<open>Storage\<close>

text \<open>
  Every operation of \<^verbatim>\<open>Storage\<close> runs in one transaction; the model takes the table and
  returns the new table. A call of \<^verbatim>\<open>get_timestamp()\<close> is the argument \<open>now\<close>: the string
  the clock returned at that call.
\<close>

text \<open>\<^verbatim>\<open>Storage.create_job\<close>: \<^verbatim>\<open>INSERT INTO jobs ...\<close>.\<close>

definition create_job :: "store \<Rightarrow> job \<Rightarrow> error + store" where
  "create_job s j =
     (if job_id j \<in> set (map job_id s) then Inl IntegrityError else Inr (s @ [j]))"

text \<open>\<^verbatim>\<open>Storage.get_job\<close>: \<^verbatim>\<open>SELECT * FROM jobs WHERE id = ?\<close>, \<^verbatim>\<open>fetchone()\<close>.\<close>

definition get_job :: "store \<Rightarrow> string \<Rightarrow> job option" where
  "get_job s i = find (\<lambda>j. job_id j = i) s"

text \<open>
  \<^verbatim>\<open>Storage.update_job\<close>: \<^verbatim>\<open>UPDATE jobs SET ... WHERE id = ?\<close>. The dictionary \<^verbatim>\<open>updates\<close>
  is the function \<open>upd\<close> that assigns its fields; \<^verbatim>\<open>updates['updated_at'] = get_timestamp()\<close>
  is assigned with them, whatever \<^verbatim>\<open>updates\<close> held for that key.
\<close>

definition update_job :: "store \<Rightarrow> string \<Rightarrow> (job \<Rightarrow> job) \<Rightarrow> timestamp \<Rightarrow> store" where
  "update_job s i upd now =
     map (\<lambda>j. if job_id j = i then (upd j)\<lparr>updated_at := now\<rparr> else j) s"

text \<open>
  \<^verbatim>\<open>Storage.acquire_job_lock\<close>: the rows the \<^verbatim>\<open>WHERE\<close> clause selects are \<open>claimable\<close>;
  the result is the new table and \<^verbatim>\<open>cursor.rowcount > 0\<close>.
\<close>

definition claimable :: "string \<Rightarrow> job \<Rightarrow> bool" where
  "claimable i j =
     (job_id j = i \<and> (lock_id j = None \<or> lock_id j = Some []) \<and> state j = Pending)"

definition acquire_job_lock :: "store \<Rightarrow> string \<Rightarrow> string \<Rightarrow> timestamp \<Rightarrow> store \<times> bool" where
  "acquire_job_lock s i lck now =
     (map (\<lambda>j. if claimable i j
                then j\<lparr>lock_id := Some lck, state := Processing, updated_at := now\<rparr>
                else j) s,
      0 < length (filter (claimable i) s))"

text \<open>\<^verbatim>\<open>Storage.release_job_lock\<close>.\<close>

definition release_job_lock :: "store \<Rightarrow> string \<Rightarrow> string \<Rightarrow> timestamp \<Rightarrow> store" where
  "release_job_lock s i lck now =
     map (\<lambda>j. if job_id j = i \<and> lock_id j = Some lck
                then j\<lparr>lock_id := None, updated_at := now\<rparr>
                else j) s"

text \<open>
  \<^verbatim>\<open>Storage.get_ready_jobs\<close>. \<open>is_ready now\<close> is the \<^verbatim>\<open>WHERE\<close> clause, \<open>sort_key created_at\<close>
  the \<^verbatim>\<open>ORDER BY created_at\<close> (rows with equal \<^verbatim>\<open>created_at\<close> stay in table order; SQLite
  leaves their order open), \<open>sql_limit\<close> the \<^verbatim>\<open>LIMIT ?\<close>: SQLite reads a negative limit
  as no limit.
\<close>

definition is_ready :: "timestamp \<Rightarrow> job \<Rightarrow> bool" where
  "is_ready now j =
     (state j = Pending \<and>
      (case scheduled_at j of None \<Rightarrow> True | Some t \<Rightarrow> t \<le> now))"

definition sql_limit :: "int \<Rightarrow> 'a list \<Rightarrow> 'a list" where
  "sql_limit n xs = (if n < 0 then xs else take (nat n) xs)"

definition get_ready_jobs :: "store \<Rightarrow> int \<Rightarrow> timestamp \<Rightarrow> job list" where
  "get_ready_jobs s limit now =
     sql_limit limit (sort_key created_at (filter (is_ready now) s))"

section \<open>Configuration and clock\<close>

text \<open>
  The two keys of \<^verbatim>\<open>Config\<close> the job manager reads (\<^verbatim>\<open>DEFAULT_CONFIG\<close>: 3 and 2.0).
  \<^verbatim>\<open>backoff_base\<close> is a Python number; the model computes with it exactly, as a real:
  the rounding of Python's floats, and the overflow of a float power, are not modelled.
\<close>

record config =
  cfg_max_retries :: int
  cfg_backoff_base :: real

text \<open>
  \<^verbatim>\<open>utils.calculate_backoff_delay\<close>: \<^verbatim>\<open>base ** attempts\<close>. Python raises
  \<^verbatim>\<open>ZeroDivisionError\<close> for a zero base and a negative exponent, where HOL's \<open>inverse 0\<close>
  is \<open>0\<close>.
\<close>

definition calculate_backoff_delay :: "int \<Rightarrow> real \<Rightarrow> error + real" where
  "calculate_backoff_delay n base =
     (if base = 0 \<and> n < 0 then Inl ZeroDivisionError else Inr (base powi n))"

section \<open>Python's clock arithmetic\<close>

text \<open>
  The retry branch of \<^verbatim>\<open>mark_failed\<close> computes
  \<^verbatim>\<open>(datetime.utcnow() + timedelta(seconds=delay)).isoformat()\<close>. A \<^verbatim>\<open>datetime\<close> is a count of
  microseconds since \<^verbatim>\<open>datetime.min\<close>, 0001-01-01T00:00:00; the last one, \<^verbatim>\<open>datetime.max\<close>,
  is 9999-12-31T23:59:59.999999.
\<close>

type_synonym datetime = int

definition datetime_max :: datetime where
  "datetime_max = 3652059 * 86400000000 - 1"

text \<open>
  \<^verbatim>\<open>timedelta(seconds=d)\<close>, in microseconds: the seconds are rounded to the nearest
  microsecond, a tie to the even one; more than 999999999 days either way is an
  \<^verbatim>\<open>OverflowError\<close>.
\<close>

definition round_half_even :: "real \<Rightarrow> int" where
  "round_half_even x =
     (let f = \<lfloor>x\<rfloor>; r = x - of_int f
      in if r < 1 / 2 then f else if 1 / 2 < r then f + 1 else if even f then f else f + 1)"

definition timedelta_seconds :: "real \<Rightarrow> error + int" where
  "timedelta_seconds d =
     (let us = round_half_even (d * 1000000); days = us div 86400000000
      in if days < - 999999999 \<or> 999999999 < days then Inl OverflowError else Inr us)"

text \<open>\<^verbatim>\<open>datetime + timedelta\<close>: a result outside the years 1 to 9999 is an \<^verbatim>\<open>OverflowError\<close>.\<close>

definition datetime_add :: "datetime \<Rightarrow> int \<Rightarrow> error + datetime" where
  "datetime_add t us =
     (if t + us < 0 \<or> datetime_max < t + us then Inl OverflowError else Inr (t + us))"

text \<open>
  \<^verbatim>\<open>datetime.isoformat()\<close>: \<^verbatim>\<open>YYYY-MM-DDTHH:MM:SS\<close>, followed by \<^verbatim>\<open>.ffffff\<close> when the
  microseconds are not zero. \<open>ord2ymd\<close> is the library's conversion of a day number
  (day 1 is 0001-01-01) to year, month and day.
\<close>

definition digit :: "int \<Rightarrow> char" where
  "digit k = ''0123456789'' ! nat k"

fun zero_pad :: "nat \<Rightarrow> int \<Rightarrow> string" where
  "zero_pad 0 k = []"
| "zero_pad (Suc w) k = zero_pad w (k div 10) @ [digit (k mod 10)]"

definition days_in_month :: "int list" where
  "days_in_month = [31, 28, 31, 30, 31, 30, 31, 31, 30, 31, 30, 31]"

definition days_before_month :: "int list" where
  "days_before_month = [0, 31, 59, 90, 120, 151, 181, 212, 243, 273, 304, 334]"

definition ord2ymd :: "int \<Rightarrow> int \<times> int \<times> int" where
  "ord2ymd ordinal =
     (let n0 = ordinal - 1;
          n400 = n0 div 146097; r400 = n0 mod 146097;
          n100 = r400 div 36524; r100 = r400 mod 36524;
          n4 = r100 div 1461; r4 = r100 mod 1461;
          n1 = r4 div 365; n = r4 mod 365;
          year = n400 * 400 + 1 + n100 * 100 + n4 * 4 + n1
      in if n1 = 4 \<or> n100 = 4 then (year - 1, 12, 31)
         else
           (let leapyear = (n1 = 3 \<and> (n4 \<noteq> 24 \<or> n100 = 3));
                month = (n + 50) div 32;
                preceding = days_before_month ! nat (month - 1)
                            + (if month > 2 \<and> leapyear then 1 else 0)
            in if preceding > n
               then (let month' = month - 1;
                         preceding' = preceding
                           - (days_in_month ! nat (month' - 1)
                              + (if month' = 2 \<and> leapyear then 1 else 0))
                     in (year, month', n - preceding' + 1))
               else (year, month, n - preceding + 1)))"

definition isoformat :: "datetime \<Rightarrow> timestamp" where
  "isoformat t =
     (let us = t mod 1000000; secs = t div 1000000;
          days = secs div 86400; sod = secs mod 86400;
          (y, m, d) = ord2ymd (days + 1)
      in zero_pad 4 y @ ''-'' @ zero_pad 2 m @ ''-'' @ zero_pad 2 d @ ''T''
         @ zero_pad 2 (sod div 3600) @ '':'' @ zero_pad 2 (sod mod 3600 div 60) @ '':''
         @ zero_pad 2 (sod mod 60)
         @ (if us = 0 then [] else ''.'' @ zero_pad 6 us))"

section \<open>Job manager\<close>

text \<open>
  The dictionary \<^verbatim>\<open>job_data\<close> of \<^verbatim>\<open>JobManager.enqueue\<close>: each key it reads, \<open>None\<close> when
  the key is missing.
\<close>

record job_input =
  in_id :: "string option"
  in_command :: "string option"
  in_max_retries :: "int option"
  in_scheduled_at :: "timestamp option"

text \<open>\<^verbatim>\<open>JobManager.enqueue\<close>: the created job and the new table, or the exception.\<close>

definition enqueue :: "config \<Rightarrow> store \<Rightarrow> job_input \<Rightarrow> timestamp \<Rightarrow> error + (job \<times> store)" where
  "enqueue cfg s inp now =
     (case (in_id inp, in_command inp) of
        (Some i, Some c) \<Rightarrow>
          (case get_job s i of
             Some existing \<Rightarrow> Inl (Duplicate i)
           | None \<Rightarrow>
               (let j = \<lparr>job_id = i, command = c, state = Pending, attempts = 0,
                         max_retries = (case in_max_retries inp of
                                          Some m \<Rightarrow> m | None \<Rightarrow> cfg_max_retries cfg),
                         created_at = now, updated_at = now,
                         scheduled_at = in_scheduled_at inp,
                         error_message = None, lock_id = None\<rparr>
                in case create_job s j of
                     Inl e \<Rightarrow> Inl e
                   | Inr s' \<Rightarrow> Inr (j, s')))
      | _ \<Rightarrow> Inl InvalidInput)"

text \<open>\<^verbatim>\<open>JobManager.mark_completed\<close>.\<close>

definition mark_completed :: "store \<Rightarrow> string \<Rightarrow> timestamp \<Rightarrow> store" where
  "mark_completed s i now =
     update_job s i (\<lambda>j. j\<lparr>state := Completed, error_message := None\<rparr>) now"

text \<open>
  \<^verbatim>\<open>JobManager.mark_failed\<close>. \<open>utcnow\<close> is what \<^verbatim>\<open>datetime.utcnow()\<close> returns in the retry
  branch, \<open>now\<close> the string the later \<^verbatim>\<open>get_timestamp()\<close> of \<^verbatim>\<open>update_job\<close> returns. The
  result is the new table (\<^verbatim>\<open>return\<close>, also the early one for a missing job) or the
  exception.
\<close>

definition mark_failed ::
  "config \<Rightarrow> datetime \<Rightarrow> store \<Rightarrow> string \<Rightarrow> string \<Rightarrow> timestamp \<Rightarrow> error + store" where
  "mark_failed cfg utcnow s i err now =
     (case get_job s i of
        None \<Rightarrow> Inr s
      | Some j \<Rightarrow>
          (let n = attempts j + 1; m = max_retries j in
           if n \<ge> m then
             Inr (update_job s i
                    (\<lambda>r. r\<lparr>state := Dead, attempts := n, error_message := Some err,
                            lock_id := None\<rparr>) now)
           else
             (case calculate_backoff_delay n (cfg_backoff_base cfg) of
                Inl e \<Rightarrow> Inl e
              | Inr delay \<Rightarrow>
                  (case timedelta_seconds delay of
                     Inl e \<Rightarrow> Inl e
                   | Inr td \<Rightarrow>
                       (case datetime_add utcnow td of
                          Inl e \<Rightarrow> Inl e
                        | Inr t \<Rightarrow>
                            Inr (update_job s i
                                   (\<lambda>r. r\<lparr>state := Pending, attempts := n,
                                           error_message := Some err,
                                           scheduled_at := Some (isoformat t),
                                           lock_id := None\<rparr>) now))))))"

text \<open>\<^verbatim>\<open>JobManager.retry_from_dlq\<close>.\<close>

definition retry_from_dlq :: "store \<Rightarrow> string \<Rightarrow> timestamp \<Rightarrow> error + store" where
  "retry_from_dlq s i now =
     (case get_job s i of
        None \<Rightarrow> Inl (NotFound i)
      | Some j \<Rightarrow>
          if state j \<noteq> Dead then Inl (InvalidState i)
          else Inr (update_job s i
                      (\<lambda>r. r\<lparr>state := Pending, attempts := 0, error_message := None,
                              scheduled_at := None, lock_id := None\<rparr>) now))"

section \<open>Sequences of lifecycle operations\<close>

text \<open>
  One call of a lifecycle operation, with its arguments and the clock readings it makes.
  A call that raises leaves the table as it was: every raise above comes before the
  first write. The reachable tables are those \<open>run\<close> produces from the empty table.
\<close>

datatype op =
    Enqueue job_input timestamp
  | TryClaim string string timestamp
  | MarkCompleted string timestamp
  | MarkFailed string string datetime timestamp
  | RetryFromDlq string timestamp
  | Release string string timestamp

fun apply_op :: "config \<Rightarrow> store \<Rightarrow> op \<Rightarrow> store" where
  "apply_op cfg s (Enqueue inp now) =
     (case enqueue cfg s inp now of Inl e \<Rightarrow> s | Inr (j, s') \<Rightarrow> s')"
| "apply_op cfg s (TryClaim i w now) = fst (acquire_job_lock s i w now)"
| "apply_op cfg s (MarkCompleted i now) = mark_completed s i now"
| "apply_op cfg s (MarkFailed i err utcnow now) =
     (case mark_failed cfg utcnow s i err now of Inl e \<Rightarrow> s | Inr s' \<Rightarrow> s')"
| "apply_op cfg s (RetryFromDlq i now) =
     (case retry_from_dlq s i now of Inl e \<Rightarrow> s | Inr s' \<Rightarrow> s')"
| "apply_op cfg s (Release i w now) = release_job_lock s i w now"

definition run :: "config \<Rightarrow> op list \<Rightarrow> store" where
  "run cfg ops = foldl (apply_op cfg) [] ops"

section \<open>Example tables\<close>

text \<open>
  Concrete configurations, rows and inputs, on which the theorems below are instantiated.
  \<open>example_cfg\<close> is \<^verbatim>\<open>Config.DEFAULT_CONFIG\<close>; \<open>example_job\<close> is the row \<^verbatim>\<open>enqueue\<close> creates
  for \<^verbatim>\<open>{"id": "j1", "command": "true"}\<close> under it.
\<close>

definition example_cfg :: config where
  "example_cfg = \<lparr>cfg_max_retries = 3, cfg_backoff_base = 2\<rparr>"

definition example_job :: job where
  "example_job =
     \<lparr>job_id = ''j1'', command = ''true'', state = Pending, attempts = 0, max_retries = 3,
      created_at = ''2024-01-01T00:00:00'', updated_at = ''2024-01-01T00:00:00'',
      scheduled_at = None, error_message = None, lock_id = None\<rparr>"

text \<open>
  Readings of the clock: \<open>at_second k\<close> is 2024-01-01T00:00:00 plus \<open>k\<close> seconds, and
  \<open>retry_clock\<close> is 2024-01-01T00:00:03.000100.
\<close>

definition at_second :: "int \<Rightarrow> datetime" where
  "at_second k = 63839664000000000 + k * 1000000"

definition retry_clock :: datetime where
  "retry_clock = 63839664003000100"


definition dead_job :: job where
  "dead_job = example_job\<lparr>state := Dead, attempts := 3, error_message := Some ''exit 1''\<rparr>"



text \<open>A pending row whose \<^verbatim>\<open>lock_id\<close> is the empty string rather than \<^verbatim>\<open>NULL\<close>.\<close>

definition empty_lock_job :: job where
  "empty_lock_job = example_job\<lparr>lock_id := Some []\<rparr>"

definition no_command_input :: job_input where
  "no_command_input =
     \<lparr>in_id = Some ''j2'', in_command = None, in_max_retries = None, in_scheduled_at = None\<rparr>"

definition duplicate_input :: job_input where
  "duplicate_input =
     \<lparr>in_id = Some ''j1'', in_command = Some ''false'', in_max_retries = None,
      in_scheduled_at = None\<rparr>"

text \<open>
  Four rows: one created last, one scheduled for the future, one completed, one whose
  schedule is due at 00:00:03 exactly.
\<close>

definition ready_table :: store where
  "ready_table =
     [example_job\<lparr>job_id := ''late'', created_at := ''2024-01-01T00:00:02''\<rparr>,
      example_job\<lparr>job_id := ''future'', created_at := ''2024-01-01T00:00:00'',
                  scheduled_at := Some ''2024-01-01T00:01:00''\<rparr>,
      example_job\<lparr>job_id := ''done'', created_at := ''2024-01-01T00:00:00'',
                  state := Completed\<rparr>,
      example_job\<lparr>job_id := ''due'', created_at := ''2024-01-01T00:00:01'',
                  scheduled_at := Some ''2024-01-01T00:00:03''\<rparr>]"

section \<open>Invariants of the reachable tables\<close>

text \<open>
  What every operation keeps, row by row: a lock is held only by a processing or a
  completed job; attempts are never negative, reach \<^verbatim>\<open>max_retries\<close> on a dead job, and
  stay below it, or at zero, on a pending or processing one.
\<close>

definition lock_only_when_claimed :: "job \<Rightarrow> bool" where
  "lock_only_when_claimed j =
     (lock_id j \<noteq> None \<longrightarrow> state j = Processing \<or> state j = Completed)"

definition attempts_invariant :: "job \<Rightarrow> bool" where
  "attempts_invariant j =
     (0 \<le> attempts j \<and>
      (state j = Dead \<longrightarrow> max_retries j \<le> attempts j) \<and>
      (state j = Pending \<or> state j = Processing \<longrightarrow>
         attempts j = 0 \<or> attempts j < max_retries j))"

text \<open>
  Sequences of calls. \<open>example_input\<close> is \<^verbatim>\<open>{"id": "j1", "command": "true"}\<close>,
  \<open>no_retry_input\<close> is \<^verbatim>\<open>{"id": "j1", "command": "false", "max_retries": 0}\<close>.
\<close>

definition example_input :: job_input where
  "example_input =
     \<lparr>in_id = Some ''j1'', in_command = Some ''true'', in_max_retries = None,
      in_scheduled_at = None\<rparr>"

definition no_retry_input :: job_input where
  "no_retry_input =
     \<lparr>in_id = Some ''j1'', in_command = Some ''false'', in_max_retries = Some 0,
      in_scheduled_at = None\<rparr>"

text \<open>A worker claims \<^verbatim>\<open>j1\<close>.\<close>

definition claimed_ops :: "op list" where
  "claimed_ops =
     [Enqueue example_input ''2024-01-01T00:00:00'',
      TryClaim ''j1'' ''worker-0'' ''2024-01-01T00:00:01'']"

text \<open>The command succeeds: the table between \<^verbatim>\<open>mark_completed\<close> and the release.\<close>

definition completed_ops :: "op list" where
  "completed_ops = claimed_ops @ [MarkCompleted ''j1'' ''2024-01-01T00:00:02'']"

text \<open>The worker releases its claim without marking a state, as its shutdown path does.\<close>

definition released_ops :: "op list" where
  "released_ops = claimed_ops @ [Release ''j1'' ''worker-0'' ''2024-01-01T00:00:02'']"

text \<open>The command fails for the first time: the job waits for its retry.\<close>

definition retried_ops :: "op list" where
  "retried_ops =
     claimed_ops @ [MarkFailed ''j1'' ''exit 1'' (at_second 2) ''2024-01-01T00:00:02.000150'']"

text \<open>A job enqueued with \<^verbatim>\<open>max_retries = 0\<close> is claimed and fails once.\<close>

definition no_retry_ops :: "op list" where
  "no_retry_ops =
     [Enqueue no_retry_input ''2024-01-01T00:00:00'',
      TryClaim ''j1'' ''worker-0'' ''2024-01-01T00:00:01'',
      MarkFailed ''j1'' ''exit 1'' (at_second 2) ''2024-01-01T00:00:02.000150'']"

text \<open>Four failures are recorded for a job that allows three.\<close>

definition four_failures_ops :: "op list" where
  "four_failures_ops =
     [Enqueue example_input ''2024-01-01T00:00:00'',
      MarkFailed ''j1'' ''exit 1'' (at_second 1) ''2024-01-01T00:00:01.000150'',
      MarkFailed ''j1'' ''exit 1'' (at_second 2) ''2024-01-01T00:00:02.000150'',
      MarkFailed ''j1'' ''exit 1'' (at_second 3) ''2024-01-01T00:00:03.000150'',
      MarkFailed ''j1'' ''exit 1'' (at_second 4) ''2024-01-01T00:00:04.000150'']"

section \<open>Lookups after an update\<close>

lemma get_job_None_iff: "get_job s i = None \<longleftrightarrow> i \<notin> job_id ` set s"
  by (auto simp: get_job_def find_None_iff)

lemma get_job_Some_id: "get_job s i = Some j \<Longrightarrow> job_id j = i \<and> j \<in> set s"
  by (auto simp: get_job_def find_Some_iff)

lemma get_job_update_job:
  assumes "\<And>r. job_id (upd r) = job_id r"
  shows "get_job (update_job s i upd now) k =
           (if k = i then map_option (\<lambda>j. (upd j)\<lparr>updated_at := now\<rparr>) (get_job s i)
            else get_job s k)"
  using assms by (induction s) (auto simp: get_job_def update_job_def)

text \<open>Under the primary key, at most the row \<^verbatim>\<open>get_job\<close> returns can be claimed.\<close>

lemma claimable_unique:
  assumes "unique_ids s" and "get_job s i = Some j"
  shows "filter (claimable i) s = (if claimable i j then [j] else [])"
  using assms
proof (induction s)
  case Nil
  then show ?case by (simp add: get_job_def)
next
  case (Cons r s)
  show ?case
  proof (cases "job_id r = i")
    case True
    with Cons.prems have rj: "r = j" and "i \<notin> job_id ` set s"
      by (auto simp: get_job_def unique_ids_def)
    then have "filter (claimable i) s = []"
      by (auto simp: filter_empty_conv claimable_def)
    with rj show ?thesis by simp
  next
    case False
    with Cons show ?thesis by (auto simp: get_job_def unique_ids_def claimable_def)
  qed
qed

lemma acquire_ids: "map job_id (fst (acquire_job_lock s i w now)) = map job_id s"
  by (induction s) (auto simp: acquire_job_lock_def)

lemma acquire_get_job:
  "get_job (fst (acquire_job_lock s i w now)) k =
     map_option (\<lambda>j. if claimable i j
                      then j\<lparr>lock_id := Some w, state := Processing, updated_at := now\<rparr>
                      else j) (get_job s k)"
  by (induction s) (auto simp: acquire_job_lock_def get_job_def)

lemma acquire_no_claimable:
  "filter (claimable i) s = [] \<Longrightarrow> fst (acquire_job_lock s i w now) = s"
  by (induction s) (auto simp: acquire_job_lock_def split: if_splits)

section \<open>Claiming a job\<close>

text \<open>
  Claim C10. For every claimant and every id with no row in the table,
  \<^verbatim>\<open>acquire_job_lock\<close> (the specification's \<^verbatim>\<open>try_claim\<close>) returns \<^verbatim>\<open>False\<close>, raises
  nothing and leaves the table as it was.
\<close>

theorem try_claim_absent:
  "get_job s i = None \<Longrightarrow> acquire_job_lock s i w now = (s, False)"
  unfolding acquire_job_lock_def get_job_None_iff claimable_def
  by (induction s) auto

text \<open>The instance: the table holds \<^verbatim>\<open>j1\<close> and the claim is for \<^verbatim>\<open>j2\<close>.\<close>

theorem try_claim_absent_witness:
  "get_job [example_job] ''j2'' = None \<and>
   acquire_job_lock [example_job] ''j2'' ''worker-0'' ''2024-01-01T00:00:03''
     = ([example_job], False)"
  using try_claim_absent [of "[example_job]" "''j2''" "''worker-0''" "''2024-01-01T00:00:03''"]
  by (simp add: get_job_def example_job_def)

text \<open>
  Claim C1, as amended. For every table with unique ids and every job \<open>j\<close> in it, the
  claim succeeds exactly when \<open>j\<close> is pending and its \<^verbatim>\<open>lock_id\<close> is \<^verbatim>\<open>NULL\<close> or the empty
  string. When it succeeds the row becomes \<open>j\<close> with state processing, the claimant as
  \<^verbatim>\<open>lock_id\<close> and \<^verbatim>\<open>updated_at\<close> the time of the call, and a second claim of the same
  job, by any claimant at any time, fails. When it fails the table is unchanged. The
  rows of other ids stay as they were in both cases.
\<close>

theorem try_claim_present:
  assumes "unique_ids s" and "get_job s i = Some j"
  shows
  "(snd (acquire_job_lock s i w now) \<longleftrightarrow>
      state j = Pending \<and> (lock_id j = None \<or> lock_id j = Some [])) \<and>
   (snd (acquire_job_lock s i w now) \<longrightarrow>
      get_job (fst (acquire_job_lock s i w now)) i
        = Some (j\<lparr>lock_id := Some w, state := Processing, updated_at := now\<rparr>) \<and>
      \<not> snd (acquire_job_lock (fst (acquire_job_lock s i w now)) i w' now')) \<and>
   (\<not> snd (acquire_job_lock s i w now) \<longrightarrow> fst (acquire_job_lock s i w now) = s) \<and>
   (\<forall>k. k \<noteq> i \<longrightarrow> get_job (fst (acquire_job_lock s i w now)) k = get_job s k)"
proof -
  let ?s' = "fst (acquire_job_lock s i w now)"
  have idj: "job_id j = i" using assms(2) by (simp add: get_job_Some_id)
  have flt: "filter (claimable i) s = (if claimable i j then [j] else [])"
    by (rule claimable_unique [OF assms])
  have b: "snd (acquire_job_lock s i w now) \<longleftrightarrow> claimable i j"
    by (simp add: acquire_job_lock_def flt)
  have c1: "snd (acquire_job_lock s i w now) \<longleftrightarrow>
      state j = Pending \<and> (lock_id j = None \<or> lock_id j = Some [])"
    using b idj by (auto simp: claimable_def)
  have g: "get_job ?s' i = Some (if claimable i j
             then j\<lparr>lock_id := Some w, state := Processing, updated_at := now\<rparr> else j)"
    by (simp add: acquire_get_job assms(2))
  have u': "unique_ids ?s'" using assms(1) by (simp add: unique_ids_def acquire_ids)
  have c2: "\<not> snd (acquire_job_lock ?s' i w' now')" if "snd (acquire_job_lock s i w now)"
  proof -
    from that b g have g': "get_job ?s' i
        = Some (j\<lparr>lock_id := Some w, state := Processing, updated_at := now\<rparr>)" by simp
    have "filter (claimable i) ?s' = []"
      using claimable_unique [OF u' g'] by (simp add: claimable_def)
    then show ?thesis by (simp add: acquire_job_lock_def [of ?s'])
  qed
  have c3: "?s' = s" if "\<not> snd (acquire_job_lock s i w now)"
    using that b flt by (simp add: acquire_no_claimable)
  have c4: "get_job ?s' k = get_job s k" if "k \<noteq> i" for k
  proof (cases "get_job s k")
    case None
    then show ?thesis by (simp add: acquire_get_job)
  next
    case (Some r)
    then have "job_id r = k" by (simp add: get_job_Some_id)
    with that Some show ?thesis by (simp add: acquire_get_job claimable_def)
  qed
  from c1 c2 c3 c4 b g show ?thesis by simp
qed

text \<open>
  The instance: \<^verbatim>\<open>worker-0\<close> claims the pending job \<^verbatim>\<open>j1\<close> and wins; \<^verbatim>\<open>worker-1\<close>, next,
  loses.
\<close>

theorem try_claim_present_witness:
  "unique_ids [example_job] \<and> get_job [example_job] ''j1'' = Some example_job \<and>
   acquire_job_lock [example_job] ''j1'' ''worker-0'' ''2024-01-01T00:00:03''
     = ([example_job\<lparr>lock_id := Some ''worker-0'', state := Processing,
                      updated_at := ''2024-01-01T00:00:03''\<rparr>], True) \<and>
   \<not> snd (acquire_job_lock
           (fst (acquire_job_lock [example_job] ''j1'' ''worker-0'' ''2024-01-01T00:00:03''))
           ''j1'' ''worker-1'' ''2024-01-01T00:00:04'')"
  using try_claim_present [of "[example_job]" "''j1''" example_job "''worker-0''"
      "''2024-01-01T00:00:03''" "''worker-1''" "''2024-01-01T00:00:04''"]
  by (simp add: unique_ids_def get_job_def example_job_def acquire_job_lock_def claimable_def)

text \<open>
  Claim C1 as the specification states it (success exactly when the job is pending and
  \<^verbatim>\<open>lock_id\<close> is absent) fails on a pending row whose \<^verbatim>\<open>lock_id\<close> is the empty string:
  the \<^verbatim>\<open>WHERE\<close> clause accepts \<^verbatim>\<open>lock_id = ''\<close> and the claim succeeds.
\<close>

theorem try_claim_empty_lock_counterexample:
  "\<not> (snd (acquire_job_lock [empty_lock_job] ''j1'' ''worker-0'' ''2024-01-01T00:00:03'') \<longleftrightarrow>
        state empty_lock_job = Pending \<and> lock_id empty_lock_job = None)"
  by (simp add: acquire_job_lock_def claimable_def empty_lock_job_def example_job_def)

section \<open>Ready jobs\<close>

text \<open>
  Claim C5. For every table and every limit that is a count, \<^verbatim>\<open>get_ready_jobs\<close> (the
  specification's \<^verbatim>\<open>ready\<close>) returns the first \<open>limit\<close> elements of a list that holds
  exactly the jobs that are pending and have \<^verbatim>\<open>scheduled_at\<close> absent or at most \<open>now\<close>, each
  as often as the table holds it, in ascending order of \<^verbatim>\<open>created_at\<close>. Every job it
  returns is a pending job of the table whose \<^verbatim>\<open>scheduled_at\<close>, when present, does not
  exceed \<open>now\<close>.
\<close>

theorem get_ready_jobs_spec:
  assumes "0 \<le> limit"
  shows
  "(\<exists>xs. mset xs = mset (filter (\<lambda>j. state j = Pending \<and>
                                    (\<forall>t. scheduled_at j = Some t \<longrightarrow> t \<le> now)) s) \<and>
         sorted (map created_at xs) \<and>
         get_ready_jobs s limit now = take (nat limit) xs) \<and>
   (\<forall>j \<in> set (get_ready_jobs s limit now).
      j \<in> set s \<and> state j = Pending \<and> (\<forall>t. scheduled_at j = Some t \<longrightarrow> \<not> now < t))"
proof -
  let ?P = "\<lambda>j. state j = Pending \<and> (\<forall>t. scheduled_at j = Some t \<longrightarrow> t \<le> now)"
  let ?xs = "sort_key created_at (filter (is_ready now) s)"
  have P: "is_ready now = ?P"
    by (auto simp: is_ready_def fun_eq_iff split: option.splits)
  have r: "get_ready_jobs s limit now = take (nat limit) ?xs"
    using assms by (simp add: get_ready_jobs_def sql_limit_def)
  have "mset ?xs = mset (filter ?P s)" by (simp add: P)
  moreover have "sorted (map created_at ?xs)" by simp
  ultimately have first: "\<exists>xs. mset xs = mset (filter ?P s) \<and> sorted (map created_at xs) \<and>
      get_ready_jobs s limit now = take (nat limit) xs"
    using r by blast
  have "j \<in> set s \<and> ?P j" if "j \<in> set (get_ready_jobs s limit now)" for j
  proof -
    from that r have "j \<in> set ?xs" by (auto dest: in_set_takeD)
    then show ?thesis by (simp add: P)
  qed
  then have second: "\<forall>j \<in> set (get_ready_jobs s limit now).
      j \<in> set s \<and> state j = Pending \<and> (\<forall>t. scheduled_at j = Some t \<longrightarrow> \<not> now < t)"
    by (auto simp: not_less)
  from first second show ?thesis by blast
qed

text \<open>
  The instance: at 00:00:03 the jobs \<^verbatim>\<open>due\<close> (scheduled for that very time) and \<^verbatim>\<open>late\<close>
  are ready, in that order; \<^verbatim>\<open>future\<close> and \<^verbatim>\<open>done\<close> are not. Limit 1 keeps the first.
\<close>

theorem get_ready_jobs_spec_witness:
  "(0::int) \<le> 1 \<and>
   map job_id (get_ready_jobs ready_table 1 ''2024-01-01T00:00:03'') = [''due''] \<and>
   map job_id (get_ready_jobs ready_table 5 ''2024-01-01T00:00:03'') = [''due'', ''late'']"
  using get_ready_jobs_spec [of 1 "''2024-01-01T00:00:03''" ready_table]
    get_ready_jobs_spec [of 5 "''2024-01-01T00:00:03''" ready_table]
  by (simp add: get_ready_jobs_def sql_limit_def is_ready_def ready_table_def example_job_def)

section \<open>Completing a job\<close>

text \<open>
  Claim C4, as amended. For every job present in the table, a second \<^verbatim>\<open>mark_completed\<close>
  changes no field of the record but \<^verbatim>\<open>updated_at\<close>, which it sets to the time of the
  second call: the table after both calls is the table after the second call alone.
\<close>

theorem mark_completed_twice:
  assumes "get_job s i = Some j"
  shows "get_job (mark_completed s i t1) i
           = Some (j\<lparr>state := Completed, error_message := None, updated_at := t1\<rparr>) \<and>
         get_job (mark_completed (mark_completed s i t1) i t2) i
           = Some (j\<lparr>state := Completed, error_message := None, updated_at := t2\<rparr>) \<and>
         mark_completed (mark_completed s i t1) i t2 = mark_completed s i t2"
proof -
  have "mark_completed (mark_completed s i t1) i t2 = mark_completed s i t2"
    by (induction s) (auto simp: mark_completed_def update_job_def)
  then show ?thesis using assms by (simp add: mark_completed_def get_job_update_job)
qed

text \<open>The instance: \<^verbatim>\<open>j1\<close> completed at 00:00:03 and again at 00:00:04.\<close>

theorem mark_completed_twice_witness:
  "get_job [example_job] ''j1'' = Some example_job \<and>
   mark_completed (mark_completed [example_job] ''j1'' ''2024-01-01T00:00:03'')
       ''j1'' ''2024-01-01T00:00:04''
     = [example_job\<lparr>state := Completed, updated_at := ''2024-01-01T00:00:04''\<rparr>]"
  using mark_completed_twice [of "[example_job]" "''j1''" example_job "''2024-01-01T00:00:03''"
      "''2024-01-01T00:00:04''"]
  by (simp add: mark_completed_def update_job_def get_job_def example_job_def)

text \<open>
  Claim C4 as the specification states it (the record after the second call is identical
  to the record after the first) fails as soon as the clock has moved between the calls:
  \<^verbatim>\<open>update_job\<close> writes \<^verbatim>\<open>updated_at\<close> on every call.
\<close>

theorem mark_completed_twice_counterexample:
  "get_job (mark_completed (mark_completed [example_job] ''j1'' ''2024-01-01T00:00:03'')
              ''j1'' ''2024-01-01T00:00:04'') ''j1''
     \<noteq> get_job (mark_completed [example_job] ''j1'' ''2024-01-01T00:00:03'') ''j1''"
  by (simp add: mark_completed_def update_job_def get_job_def example_job_def)

section \<open>Failing a job\<close>

text \<open>
  Claim C9. For every id with no row in the table and every error message,
  \<^verbatim>\<open>mark_failed\<close> returns without raising and leaves the table as it was.
\<close>

theorem mark_failed_absent:
  "get_job s i = None \<Longrightarrow>
     mark_failed cfg utcnow s i err now = Inr s \<and>
     apply_op cfg s (MarkFailed i err utcnow now) = s"
  by (simp add: mark_failed_def)

text \<open>The instance: the table holds \<^verbatim>\<open>j1\<close> and the failure is reported for \<^verbatim>\<open>j2\<close>.\<close>

theorem mark_failed_absent_witness:
  "get_job [example_job] ''j2'' = None \<and>
   mark_failed example_cfg retry_clock [example_job] ''j2'' ''exit 1''
       ''2024-01-01T00:00:03.000250''
     = Inr [example_job]"
  using mark_failed_absent [of "[example_job]" "''j2''" example_cfg retry_clock "''exit 1''"
      "''2024-01-01T00:00:03.000250''"]
  by (simp add: get_job_def example_job_def)


text \<open>The times of the examples, formatted.\<close>

lemma isoformat_examples:
  "isoformat 63839664003000000 = ''2024-01-01T00:00:03''"
  "isoformat 63839664004000000 = ''2024-01-01T00:00:04''"
  "isoformat 63839664006000000 = ''2024-01-01T00:00:06''"
  "isoformat 63839664003000100 = ''2024-01-01T00:00:03.000100''"
  "isoformat 63839664005000100 = ''2024-01-01T00:00:05.000100''"
  by code_simp+





section \<open>Replaying a dead job\<close>

text \<open>
  Claim C7. \<^verbatim>\<open>retry_from_dlq\<close> fails with NotFound when the table has no job of that id and
  with InvalidState when the job is not dead; neither writes to the table. When the job
  \<open>j\<close> is dead, the record becomes \<open>j\<close> with state pending, attempts 0, no error message,
  no schedule and no lock (and \<^verbatim>\<open>updated_at\<close> the time of the call); the rows of other ids
  stay as they were.
\<close>

theorem retry_from_dlq_cases:
  "(get_job s i = None \<longrightarrow>
      retry_from_dlq s i now = Inl (NotFound i) \<and> apply_op cfg s (RetryFromDlq i now) = s) \<and>
   (\<forall>j. get_job s i = Some j \<and> state j \<noteq> Dead \<longrightarrow>
      retry_from_dlq s i now = Inl (InvalidState i) \<and> apply_op cfg s (RetryFromDlq i now) = s) \<and>
   (\<forall>j. get_job s i = Some j \<and> state j = Dead \<longrightarrow>
      (\<exists>s'. retry_from_dlq s i now = Inr s' \<and>
            get_job s' i = Some (j\<lparr>state := Pending, attempts := 0, error_message := None,
                                   scheduled_at := None, lock_id := None, updated_at := now\<rparr>) \<and>
            (\<forall>k. k \<noteq> i \<longrightarrow> get_job s' k = get_job s k)))"
  by (auto simp: retry_from_dlq_def get_job_update_job)

text \<open>
  The instances: a replay of the missing \<^verbatim>\<open>j2\<close>, of the pending \<^verbatim>\<open>j1\<close>, and of the dead
  \<^verbatim>\<open>j1\<close>, which comes back as the job first enqueued.
\<close>

theorem retry_from_dlq_cases_witness:
  "(get_job [dead_job] ''j2'' = None \<and>
    retry_from_dlq [dead_job] ''j2'' ''2024-01-01T00:00:03'' = Inl (NotFound ''j2'')) \<and>
   (get_job [example_job] ''j1'' = Some example_job \<and> state example_job \<noteq> Dead \<and>
    retry_from_dlq [example_job] ''j1'' ''2024-01-01T00:00:03'' = Inl (InvalidState ''j1'')) \<and>
   (get_job [dead_job] ''j1'' = Some dead_job \<and> state dead_job = Dead \<and>
    retry_from_dlq [dead_job] ''j1'' ''2024-01-01T00:00:03''
      = Inr [example_job\<lparr>updated_at := ''2024-01-01T00:00:03''\<rparr>])"
  using retry_from_dlq_cases [of "[dead_job]" "''j2''" "''2024-01-01T00:00:03''" example_cfg]
    retry_from_dlq_cases [of "[example_job]" "''j1''" "''2024-01-01T00:00:03''" example_cfg]
    retry_from_dlq_cases [of "[dead_job]" "''j1''" "''2024-01-01T00:00:03''" example_cfg]
  by (simp add: get_job_def example_job_def dead_job_def retry_from_dlq_def update_job_def)

section \<open>Enqueueing\<close>

text \<open>
  Claim C8. \<^verbatim>\<open>enqueue\<close> fails with InvalidInput when the input lacks \<^verbatim>\<open>id\<close> or \<^verbatim>\<open>command\<close>,
  and with Duplicate when the input has both and the table already holds a job of that
  id; in both cases nothing is written: no record is created and the table is as it was.
\<close>

theorem enqueue_errors:
  "((in_id inp = None \<or> in_command inp = None) \<longrightarrow>
      enqueue cfg s inp now = Inl InvalidInput \<and> apply_op cfg s (Enqueue inp now) = s) \<and>
   (\<forall>i c j. in_id inp = Some i \<and> in_command inp = Some c \<and> get_job s i = Some j \<longrightarrow>
      enqueue cfg s inp now = Inl (Duplicate i) \<and> apply_op cfg s (Enqueue inp now) = s)"
  by (auto simp: enqueue_def split: option.splits)

text \<open>The instances: an input without \<^verbatim>\<open>command\<close>, and a second job named \<^verbatim>\<open>j1\<close>.\<close>

theorem enqueue_errors_witness:
  "(in_command no_command_input = None \<and>
    enqueue example_cfg [example_job] no_command_input ''2024-01-01T00:00:03'' = Inl InvalidInput \<and>
    apply_op example_cfg [example_job] (Enqueue no_command_input ''2024-01-01T00:00:03'')
      = [example_job]) \<and>
   (in_id duplicate_input = Some ''j1'' \<and> in_command duplicate_input = Some ''false'' \<and>
    get_job [example_job] ''j1'' = Some example_job \<and>
    enqueue example_cfg [example_job] duplicate_input ''2024-01-01T00:00:03''
      = Inl (Duplicate ''j1'') \<and>
    apply_op example_cfg [example_job] (Enqueue duplicate_input ''2024-01-01T00:00:03'')
      = [example_job])"
  using enqueue_errors [of no_command_input example_cfg "[example_job]" "''2024-01-01T00:00:03''"]
    enqueue_errors [of duplicate_input example_cfg "[example_job]" "''2024-01-01T00:00:03''"]
  by (simp add: no_command_input_def duplicate_input_def get_job_def example_job_def)

section \<open>Reachable tables\<close>

lemma run_snoc: "run cfg (ops @ [x]) = apply_op cfg (run cfg ops) x"
  by (simp add: run_def)

lemma run_Nil: "run cfg [] = []"
  by (simp add: run_def)

text \<open>
  Induction over the calls: what holds of the empty table and survives every operation
  holds of every reachable table.
\<close>

lemma reachable_induct:
  assumes "Q []" and "\<And>s x. Q s \<Longrightarrow> Q (apply_op cfg s x)"
  shows "Q (run cfg ops)"
proof (induction ops rule: rev_induct)
  case Nil
  show ?case by (simp add: run_Nil assms(1))
next
  case (snoc x xs)
  then show ?case by (simp add: run_snoc assms(2))
qed

text \<open>The primary key holds on every reachable table: only \<^verbatim>\<open>enqueue\<close> adds an id.\<close>

lemma update_job_ids:
  "(\<And>r. job_id (upd r) = job_id r) \<Longrightarrow> map job_id (update_job s i upd now) = map job_id s"
  by (induction s) (auto simp: update_job_def)

lemma unique_ids_step:
  assumes "unique_ids s"
  shows "unique_ids (apply_op cfg s x)"
proof (cases x)
  case (Enqueue inp now)
  with assms show ?thesis
    by (auto simp: enqueue_def create_job_def Let_def unique_ids_def get_job_None_iff
        split: option.splits if_splits)
next
  case (TryClaim i w now)
  with assms show ?thesis by (simp add: unique_ids_def acquire_ids)
next
  case (MarkCompleted i now)
  with assms show ?thesis by (simp add: unique_ids_def mark_completed_def update_job_ids)
next
  case (MarkFailed i err utcnow now)
  with assms show ?thesis
    by (auto simp: unique_ids_def mark_failed_def Let_def update_job_ids
        split: option.splits sum.splits)
next
  case (RetryFromDlq i now)
  with assms show ?thesis
    by (auto simp: unique_ids_def retry_from_dlq_def update_job_ids split: option.splits)
next
  case (Release i w now)
  have "map job_id (release_job_lock s i w now) = map job_id s"
    by (induction s) (auto simp: release_job_lock_def)
  with Release assms show ?thesis by (simp add: unique_ids_def)
qed

lemma unique_ids_run: "unique_ids (run cfg ops)"
  by (rule reachable_induct) (simp add: unique_ids_def, simp add: unique_ids_step)

lemma unique_row:
  assumes "unique_ids s" and "get_job s i = Some j" and "r \<in> set s" and "job_id r = i"
  shows "r = j"
proof -
  from assms(2) have "j \<in> set s" and "job_id j = i" by (simp_all add: get_job_Some_id)
  moreover from assms(1) have "inj_on job_id (set s)"
    by (simp add: unique_ids_def distinct_map)
  ultimately show ?thesis using assms(3,4) by (auto dest: inj_onD)
qed

text \<open>The example sequences, evaluated.\<close>

lemmas clock_defs = timedelta_seconds_def datetime_add_def round_half_even_def
  datetime_max_def at_second_def

lemmas eval_defs = run_def enqueue_def create_job_def get_job_def update_job_def
  acquire_job_lock_def claimable_def release_job_lock_def mark_completed_def mark_failed_def
  retry_from_dlq_def calculate_backoff_delay_def Let_def

lemma run_claimed:
  "run example_cfg claimed_ops =
     [example_job\<lparr>state := Processing, lock_id := Some ''worker-0'',
                  updated_at := ''2024-01-01T00:00:01''\<rparr>]"
  by (simp add: claimed_ops_def eval_defs example_cfg_def example_input_def example_job_def)

lemma run_completed:
  "run example_cfg completed_ops =
     [example_job\<lparr>state := Completed, lock_id := Some ''worker-0'',
                  updated_at := ''2024-01-01T00:00:02''\<rparr>]"
  by (simp add: completed_ops_def run_snoc run_claimed mark_completed_def update_job_def
      example_job_def)

lemma run_released:
  "run example_cfg released_ops =
     [example_job\<lparr>state := Processing, updated_at := ''2024-01-01T00:00:02''\<rparr>]"
  by (simp add: released_ops_def run_snoc run_claimed release_job_lock_def example_job_def)

lemma run_retried:
  "run example_cfg retried_ops =
     [example_job\<lparr>state := Pending, attempts := 1, error_message := Some ''exit 1'',
                  scheduled_at := Some ''2024-01-01T00:00:04'',
                  updated_at := ''2024-01-01T00:00:02.000150''\<rparr>]"
  unfolding retried_ops_def run_snoc run_claimed
  by (simp add: mark_failed_def get_job_def update_job_def calculate_backoff_delay_def
      clock_defs isoformat_examples example_cfg_def example_job_def)

lemma run_no_retry:
  "run example_cfg no_retry_ops =
     [example_job\<lparr>command := ''false'', state := Dead, attempts := 1, max_retries := 0,
                  error_message := Some ''exit 1'',
                  updated_at := ''2024-01-01T00:00:02.000150''\<rparr>]"
  by (simp add: no_retry_ops_def eval_defs example_cfg_def no_retry_input_def
      example_job_def)

lemma run_four_failures:
  "run example_cfg four_failures_ops =
     [example_job\<lparr>state := Dead, attempts := 4, error_message := Some ''exit 1'',
                  scheduled_at := Some ''2024-01-01T00:00:06'',
                  updated_at := ''2024-01-01T00:00:04.000150''\<rparr>]"
  by (simp add: four_failures_ops_def eval_defs clock_defs isoformat_examples
      example_cfg_def example_input_def example_job_def)

section \<open>Locks and states\<close>

lemma lock_step:
  assumes "list_all lock_only_when_claimed s"
  shows "list_all lock_only_when_claimed (apply_op cfg s x)"
proof (cases x)
  case (Enqueue inp now)
  with assms show ?thesis
    by (auto simp: enqueue_def create_job_def Let_def lock_only_when_claimed_def list_all_iff
        split: option.splits if_splits)
next
  case (TryClaim i w now)
  with assms show ?thesis
    by (auto simp: acquire_job_lock_def lock_only_when_claimed_def list_all_iff)
next
  case (MarkCompleted i now)
  with assms show ?thesis
    by (auto simp: mark_completed_def update_job_def lock_only_when_claimed_def list_all_iff)
next
  case (MarkFailed i err utcnow now)
  with assms show ?thesis
    by (auto simp: mark_failed_def update_job_def Let_def lock_only_when_claimed_def
        list_all_iff split: option.splits sum.splits)
next
  case (RetryFromDlq i now)
  with assms show ?thesis
    by (auto simp: retry_from_dlq_def update_job_def lock_only_when_claimed_def list_all_iff
        split: option.splits)
next
  case (Release i w now)
  with assms show ?thesis
    by (auto simp: release_job_lock_def lock_only_when_claimed_def list_all_iff)
qed

text \<open>
  Claim C3, as amended. In every table reachable by a sequence of lifecycle operations
  (enqueue, try_claim, mark_completed, mark_failed, retry_from_dlq, release), every job
  whose state is pending, failed or dead has \<^verbatim>\<open>lock_id\<close> absent.
\<close>

theorem lock_only_when_claimed_reachable:
  "\<forall>j \<in> set (run cfg ops).
     state j = Pending \<or> state j = Failed \<or> state j = Dead \<longrightarrow> lock_id j = None"
proof -
  have "list_all lock_only_when_claimed (run cfg ops)"
    by (rule reachable_induct) (simp_all add: lock_step)
  then show ?thesis by (auto simp: list_all_iff lock_only_when_claimed_def)
qed

text \<open>
  The instances: the job waiting for its retry and the dead job were both claimed by
  \<^verbatim>\<open>worker-0\<close> before they failed, and hold no lock.
\<close>

theorem lock_only_when_claimed_reachable_witness:
  "(state (hd (run example_cfg retried_ops)) = Pending \<and>
    lock_id (hd (run example_cfg retried_ops)) = None) \<and>
   (state (hd (run example_cfg no_retry_ops)) = Dead \<and>
    lock_id (hd (run example_cfg no_retry_ops)) = None)"
  using lock_only_when_claimed_reachable [of example_cfg retried_ops]
    lock_only_when_claimed_reachable [of example_cfg no_retry_ops]
  by (simp add: run_retried run_no_retry example_job_def)

text \<open>
  Claim C3 as the specification states it (lock present exactly when processing) fails
  in both directions: after \<^verbatim>\<open>mark_completed\<close> the job is completed and still holds the
  worker's lock, which only the later release clears; after a release without a state
  change the job is processing and holds no lock.
\<close>

theorem lock_iff_processing_counterexample:
  "(hd (run example_cfg completed_ops) \<in> set (run example_cfg completed_ops) \<and>
    \<not> (lock_id (hd (run example_cfg completed_ops)) \<noteq> None \<longleftrightarrow>
         state (hd (run example_cfg completed_ops)) = Processing)) \<and>
   (hd (run example_cfg released_ops) \<in> set (run example_cfg released_ops) \<and>
    \<not> (lock_id (hd (run example_cfg released_ops)) \<noteq> None \<longleftrightarrow>
         state (hd (run example_cfg released_ops)) = Processing))"
  by (simp add: run_completed run_released example_job_def)

section \<open>Attempts and the retry limit\<close>

lemma attempts_step:
  assumes "unique_ids s" and "list_all attempts_invariant s"
  shows "list_all attempts_invariant (apply_op cfg s x)"
proof (cases x)
  case (Enqueue inp now)
  with assms(2) show ?thesis
    by (auto simp: enqueue_def create_job_def Let_def attempts_invariant_def list_all_iff
        split: option.splits if_splits)
next
  case (TryClaim i w now)
  with assms(2) show ?thesis
    by (auto simp: acquire_job_lock_def claimable_def attempts_invariant_def list_all_iff)
next
  case (MarkCompleted i now)
  with assms(2) show ?thesis
    by (auto simp: mark_completed_def update_job_def attempts_invariant_def list_all_iff)
next
  case (MarkFailed i err utcnow now)
  show ?thesis
  proof (cases "get_job s i")
    case None
    with MarkFailed assms(2) show ?thesis by (simp add: mark_failed_def)
  next
    case (Some j)
    then have "j \<in> set s" by (simp add: get_job_Some_id)
    with assms(2) have j0: "0 \<le> attempts j" by (simp add: list_all_iff attempts_invariant_def)
    have upd: "set (update_job s i f now) \<subseteq> insert ((f j)\<lparr>updated_at := now\<rparr>) (set s)" for f
      using unique_row [OF assms(1) Some] by (auto simp: update_job_def)
    have "attempts_invariant r'" if "r' \<in> set (apply_op cfg s x)" for r'
    proof -
      from assms(2) have old: "attempts_invariant r" if "r \<in> set s" for r
        using that by (simp add: list_all_iff)
      from that MarkFailed Some consider "r' \<in> set s"
        | "max_retries j \<le> attempts j + 1"
          "r' = j\<lparr>state := Dead, attempts := attempts j + 1, error_message := Some err,
                  lock_id := None, updated_at := now\<rparr>"
        | d where "attempts j + 1 < max_retries j"
          "r' = j\<lparr>state := Pending, attempts := attempts j + 1, error_message := Some err,
                  scheduled_at := Some d, lock_id := None, updated_at := now\<rparr>"
        using upd
        by (fastforce simp: mark_failed_def Let_def split: sum.splits option.splits if_splits)
      then show ?thesis
      proof cases
        case 1
        then show ?thesis by (rule old)
      next
        case 2
        with j0 show ?thesis by (simp add: attempts_invariant_def)
      next
        case 3
        with j0 show ?thesis by (simp add: attempts_invariant_def)
      qed
    qed
    then show ?thesis by (simp add: list_all_iff)
  qed
next
  case (RetryFromDlq i now)
  with assms(2) show ?thesis
    by (auto simp: retry_from_dlq_def update_job_def attempts_invariant_def list_all_iff
        split: option.splits)
next
  case (Release i w now)
  with assms(2) show ?thesis
    by (auto simp: release_job_lock_def attempts_invariant_def list_all_iff)
qed

text \<open>
  Claim C6, as amended. In every reachable table, every job has \<open>0 \<le> attempts\<close>, every
  dead job has \<open>attempts \<ge> max_retries\<close>, and every pending or processing job has
  \<open>attempts = 0\<close> or \<open>attempts < max_retries\<close>.
\<close>

theorem attempts_reachable:
  "\<forall>j \<in> set (run cfg ops).
     0 \<le> attempts j \<and>
     (state j = Dead \<longrightarrow> max_retries j \<le> attempts j) \<and>
     (state j = Pending \<or> state j = Processing \<longrightarrow>
        attempts j = 0 \<or> attempts j < max_retries j)"
proof -
  have "unique_ids (run cfg ops) \<and> list_all attempts_invariant (run cfg ops)"
    by (rule reachable_induct) (simp add: unique_ids_def, simp add: unique_ids_step attempts_step)
  then show ?thesis by (simp add: list_all_iff attempts_invariant_def)
qed

text \<open>
  The instances: the dead jobs of the two sequences, with \<open>1 \<ge> 0\<close> and \<open>4 \<ge> 3\<close>, and the
  processing job just claimed, with no attempt yet.
\<close>

theorem attempts_reachable_witness:
  "(state (hd (run example_cfg no_retry_ops)) = Dead \<and>
    max_retries (hd (run example_cfg no_retry_ops))
      \<le> attempts (hd (run example_cfg no_retry_ops))) \<and>
   (state (hd (run example_cfg four_failures_ops)) = Dead \<and>
    max_retries (hd (run example_cfg four_failures_ops))
      \<le> attempts (hd (run example_cfg four_failures_ops))) \<and>
   (state (hd (run example_cfg claimed_ops)) = Processing \<and>
    attempts (hd (run example_cfg claimed_ops)) = 0)"
  using attempts_reachable [of example_cfg no_retry_ops]
    attempts_reachable [of example_cfg four_failures_ops]
    attempts_reachable [of example_cfg claimed_ops]
  by (simp add: run_no_retry run_four_failures run_claimed example_job_def)

text \<open>
  Claim C6 as the specification states it (\<open>0 \<le> attempts \<le> max_retries\<close>, with equality
  on a dead job) fails on both sequences: \<^verbatim>\<open>enqueue\<close> accepts \<^verbatim>\<open>max_retries = 0\<close>, and the
  first failure leaves the job dead with one attempt; \<^verbatim>\<open>mark_failed\<close> counts a failure
  whatever the job's state, so a fourth failure leaves a dead job with four attempts of
  three.
\<close>

theorem attempts_within_limit_counterexample:
  "(hd (run example_cfg no_retry_ops) \<in> set (run example_cfg no_retry_ops) \<and>
    state (hd (run example_cfg no_retry_ops)) = Dead \<and>
    attempts (hd (run example_cfg no_retry_ops)) = 1 \<and>
    max_retries (hd (run example_cfg no_retry_ops)) = 0 \<and>
    \<not> attempts (hd (run example_cfg no_retry_ops))
        \<le> max_retries (hd (run example_cfg no_retry_ops))) \<and>
   (hd (run example_cfg four_failures_ops) \<in> set (run example_cfg four_failures_ops) \<and>
    state (hd (run example_cfg four_failures_ops)) = Dead \<and>
    attempts (hd (run example_cfg four_failures_ops)) = 4 \<and>
    max_retries (hd (run example_cfg four_failures_ops)) = 3 \<and>
    \<not> attempts (hd (run example_cfg four_failures_ops))
        \<le> max_retries (hd (run example_cfg four_failures_ops)))"
  by (simp add: run_no_retry run_four_failures example_job_def)

end
